theory Spec2Isabelle
  imports Complex_Main
begin

section \<open>JavaScript numbers\<close>

text \<open>
  A JavaScript number is an IEEE-754 double. Every finite double is a real number and the
  comparison of two finite doubles is the comparison of those reals, so \<open>Num r\<close> stands
  for the double whose value is \<open>r\<close>; the three special values are constructors of their
  own. Only comparison and truthiness are defined here: arithmetic on doubles rounds, and
  the operations the components use (\<open>+\<close>, \<open>/\<close>, \<open>toFixed\<close>) are taken from the
  \<open>runtime\<close> record below together with the library call \<open>turf.distance\<close>.
\<close>

datatype number = Num real | PosInfinity | NegInfinity | NaN

text \<open>The operator \<open><\<close> on numbers: every comparison with \<open>NaN\<close> is false.\<close>

fun num_less :: "number \<Rightarrow> number \<Rightarrow> bool" where
  "num_less NaN b = False"
| "num_less a NaN = False"
| "num_less a NegInfinity = False"
| "num_less NegInfinity b = True"
| "num_less PosInfinity b = False"
| "num_less (Num x) PosInfinity = True"
| "num_less (Num x) (Num y) = (x < y)"

text \<open>The operator \<open><=\<close> on numbers.\<close>

fun num_le :: "number \<Rightarrow> number \<Rightarrow> bool" where
  "num_le NaN b = False"
| "num_le a NaN = False"
| "num_le NegInfinity b = True"
| "num_le a PosInfinity = True"
| "num_le a NegInfinity = False"
| "num_le PosInfinity (Num y) = False"
| "num_le (Num x) (Num y) = (x \<le> y)"

text \<open>Truthiness of a number in a condition: \<open>0\<close>, \<open>-0\<close> and \<open>NaN\<close> are falsy.\<close>

fun truthy :: "number \<Rightarrow> bool" where
  "truthy (Num x) = (x \<noteq> 0)"
| "truthy NaN = False"
| "truthy PosInfinity = True"
| "truthy NegInfinity = True"

text \<open>A GeoJSON position, \<open>[lon, lat]\<close>.\<close>

type_synonym position = "number \<times> number"

text \<open>
  What the components call but the repository does not define: \<open>turf.distance\<close> with
  \<open>units: 'kilometers'\<close>, the double operations \<open>+\<close> and \<open>/\<close>, and
  \<open>Number.prototype.toFixed\<close>.
\<close>

record runtime =
  turf_distance :: "position \<Rightarrow> position \<Rightarrow> number"
  num_add :: "number \<Rightarrow> number \<Rightarrow> number"
  num_div :: "number \<Rightarrow> number \<Rightarrow> number"
  toFixed :: "number \<Rightarrow> nat \<Rightarrow> string"

section \<open>Map.tsx: the map component\<close>

text \<open>
  The fields \<open>lat\<close> and \<open>lon\<close> that a landfill and the state centre share, then an
  element of \<open>landfills\<close>. The page passes
  \<open>enrichedData.coordinates.landfills\<close> on as it is, so the optional fourth field of that
  interface is part of the record; the map component never reads it.
\<close>

record latlon =
  lat :: number
  lon :: number

record landfill = latlon +
  name :: string
  distance_to_landfill_from_sector :: "string option"

record stateCoordinates_t = latlon +
  stateName :: string

record MapComponentProps =
  stateCoordinates :: stateCoordinates_t
  landfills :: "landfill list"

text \<open>What the component hands to the map surface, in the order it is handed over.\<close>

datatype instruction =
    AddControl
  | AddMarker "string option" position string
  | AddSource string "position list"
  | AddLayer string string
  | AddPopup position string




datatype error = TypeError

text \<open>Lines 58 to 65: the \<open>forEach\<close> that tracks the shortest distance seen so far.\<close>

fun nearest_loop ::
  "runtime \<Rightarrow> position \<Rightarrow> landfill list \<Rightarrow> landfill option \<times> number \<Rightarrow> landfill option \<times> number"
where
  "nearest_loop rt statePoint [] acc = acc"
| "nearest_loop rt statePoint (l # ls) (nearestLandfill, shortestDistance) =
     (let distance = turf_distance rt statePoint (lon l, lat l)
      in if num_less distance shortestDistance
         then nearest_loop rt statePoint ls (Some l, distance)
         else nearest_loop rt statePoint ls (nearestLandfill, shortestDistance))"

text \<open>
  Lines 54 to 65. \<open>landfills[0]\<close> of an empty array is \<open>undefined\<close>, here \<open>None\<close>.
\<close>

definition find_nearest ::
  "runtime \<Rightarrow> stateCoordinates_t \<Rightarrow> landfill list \<Rightarrow> landfill option \<times> number"
where
  "find_nearest rt sc ls =
     nearest_loop rt (lon sc, lat sc) ls
       (case ls of [] \<Rightarrow> None | l # _ \<Rightarrow> Some l, PosInfinity)"

definition landfill_marker :: "landfill \<Rightarrow> instruction" where
  "landfill_marker l = AddMarker None (lon l, lat l) (''<h3>'' @ name l @ ''</h3>'')"

definition state_marker :: "stateCoordinates_t \<Rightarrow> instruction" where
  "state_marker sc =
     AddMarker (Some ''#FF0000'') (lon sc, lat sc) (''<h3>'' @ stateName sc @ ''</h3>'')"

text \<open>Lines 67 to 102, once a nearest landfill is at hand.\<close>

definition route_instructions ::
  "runtime \<Rightarrow> stateCoordinates_t \<Rightarrow> landfill \<Rightarrow> number \<Rightarrow> instruction list"
where
  "route_instructions rt sc nearestLandfill shortestDistance =
     [AddSource ''shortest-path''
        [(lon sc, lat sc), (lon nearestLandfill, lat nearestLandfill)],
      AddLayer ''shortest-path'' ''shortest-path'',
      AddPopup
        (num_div rt (num_add rt (lon sc) (lon nearestLandfill)) (Num 2),
         num_div rt (num_add rt (lat sc) (lat nearestLandfill)) (Num 2))
        (''<h3>Shortest Distance: '' @ toFixed rt shortestDistance 2 @ '' km</h3>'')]"

text \<open>
  The body of the \<open>load\<close> callback (lines 34 to 102) as the instructions it emits and
  the exception it ends with, if any. With no landfill, \<open>nearestLandfill.lon\<close> at line 77
  throws while the argument of \<open>addSource\<close> is built: the control and the markers have
  been handed over, the source, the layer and the popup have not.
\<close>

definition load_instructions ::
  "runtime \<Rightarrow> MapComponentProps \<Rightarrow> instruction list \<times> error option"
where
  "load_instructions rt p =
     (let sc = stateCoordinates p;
          before = AddControl # map landfill_marker (landfills p) @ [state_marker sc]
      in case find_nearest rt sc (landfills p) of
           (None, shortestDistance) \<Rightarrow> (before, Some TypeError)
         | (Some nearestLandfill, shortestDistance) \<Rightarrow>
             (before @ route_instructions rt sc nearestLandfill shortestDistance, None))"





text \<open>Lines 54, 59 and 60: the distance from the state centre to a landfill.\<close>

definition distance_to :: "runtime \<Rightarrow> stateCoordinates_t \<Rightarrow> landfill \<Rightarrow> number" where
  "distance_to rt sc l = turf_distance rt (lon sc, lat sc) (lon l, lat l)"

section \<open>The page: state and handlers of \<open>Home\<close>\<close>

text \<open>
  The interfaces of the page. A field whose name another record of this theory already
  uses carries a prefix: \<open>data_sector\<close> is \<open>EnrichedData.sector\<close>,
  \<open>coordinates_landfills\<close> is \<open>coordinates.landfills\<close>,
  \<open>methods_landfill\<close> is \<open>waste_management_methods.landfill\<close>, and the fields of the
  request payload start with \<open>payload_\<close>.
\<close>

record waste_composition_t =
  organic :: string
  plastic :: string
  paper :: string
  metal :: string
  glass :: string
  other :: string

record waste_management_methods_t =
  methods_landfill :: string
  recycling :: string
  composting :: string
  incineration :: string

record coordinates_t =
  state_lat :: number
  state_lon :: number
  coordinates_landfills :: "landfill list"

record EnrichedData =
  data_sector :: string
  total_waste_generated :: string
  waste_composition :: waste_composition_t
  recycling_rate :: string
  waste_management_methods :: waste_management_methods_t
  key_challenges :: "string list"
  initiatives :: "string list"
  data_year :: string
  condition_of_roads_to_landfills :: string
  coordinates :: coordinates_t

record RouteDetail =
  Route :: string
  Closeness_Coefficient :: number
  Ranking :: number

text \<open>The signed-in user of the identity provider, known by its uid.\<close>

datatype User = User string

text \<open>The state \<open>userLocation\<close>: each field is a number or \<open>null\<close>.\<close>

record userLocation_t =
  latitude :: "number option"
  longitude :: "number option"

text \<open>The \<open>useState\<close> cells of \<open>Home\<close> (lines 86 to 109).\<close>

record home =
  user :: "User option"
  phoneNo :: string
  sector :: string
  enrichedData :: "EnrichedData option"
  routeDetails :: "RouteDetail list option"
  isThereData :: bool
  loading :: bool
  loginError :: "string option"
  logoutError :: "string option"
  isInformed :: bool
  isInputStage :: bool
  userLocation :: userLocation_t
  locationError :: "string option"
  collectionEfficiency :: number
  mileage :: number
  petrolLeft :: number

definition initial_home :: home where
  "initial_home =
     \<lparr>user = None, phoneNo = [], sector = [], enrichedData = None, routeDetails = None,
      isThereData = False, loading = False, loginError = None, logoutError = None,
      isInformed = False, isInputStage = False,
      userLocation = \<lparr>latitude = None, longitude = None\<rparr>, locationError = None,
      collectionEfficiency = Num 85, mileage = Num 10, petrolLeft = Num 50\<rparr>"

text \<open>
  The request body of line 177. \<open>payload_userLocation\<close> is \<open>null\<close> or the object
  \<open>{latitude, longitude}\<close>, here the pair in that order.
\<close>

record payload =
  payload_sector :: string
  collection_efficiency :: number
  payload_mileage :: number
  petrol_left :: number
  payload_userLocation :: "(number \<times> number) option"

text \<open>The parsed body of a 2xx response: \<open>data.data\<close> and \<open>data.route_details\<close>.\<close>

record response_body =
  data :: EnrichedData
  route_details :: "RouteDetail list"

text \<open>
  How the \<open>fetch\<close> of \<open>handleSubmit\<close> ends. Each failure reaches the \<open>catch\<close>: the
  request is rejected, the status is not 2xx (line 200 throws) or the body does not parse.
\<close>

datatype fetch_failure = Rejected | NotOk "string option" | BadJson

datatype fetch_outcome = Failed fetch_failure | Succeeded response_body

datatype signOut_outcome = SignOutResolved | SignOutRejected

text \<open>
  How a click on "Get My Location" ends: the browser has no geolocation, the success
  callback gets a position, or the error callback gets a \<open>GeolocationPositionError\<close>.
\<close>

datatype position_error = PERMISSION_DENIED | POSITION_UNAVAILABLE | TIMEOUT

datatype location_outcome =
    NotSupported
  | Position number number
  | PositionFailed position_error

text \<open>The subscription of line 112: every change of the auth state sets \<open>user\<close>.\<close>

definition onAuthStateChanged :: "User option \<Rightarrow> home \<Rightarrow> home" where
  "onAuthStateChanged u s = s\<lparr>user := u\<rparr>"

text \<open>
  \<open>handleLogout\<close> (lines 132 to 143) runs in two turns of the event loop: the four
  setters before \<open>await auth.signOut()\<close>, then what follows once the promise has settled.
  A sign-out that succeeds makes the provider call the subscription with \<open>null\<close>.
\<close>

definition handleLogout_begin :: "home \<Rightarrow> home" where
  "handleLogout_begin s =
     s\<lparr>isThereData := False, enrichedData := None, isInformed := False, isInputStage := False\<rparr>"

definition handleLogout_settle :: "signOut_outcome \<Rightarrow> home \<Rightarrow> home" where
  "handleLogout_settle outcome s =
     (case outcome of
        SignOutResolved \<Rightarrow> onAuthStateChanged None s
      | SignOutRejected \<Rightarrow> s\<lparr>logoutError := Some ''Failed to log out. Please try again.''\<rparr>)"

definition handleLogout :: "signOut_outcome \<Rightarrow> home \<Rightarrow> home" where
  "handleLogout outcome s = handleLogout_settle outcome (handleLogout_begin s)"

text \<open>
  \<open>getUserLocation\<close> (lines 145 to 167): the synchronous part, then one of the two
  callbacks of \<open>getCurrentPosition\<close>.
\<close>

definition getUserLocation_begin :: "bool \<Rightarrow> home \<Rightarrow> home" where
  "getUserLocation_begin geolocation_in_navigator s =
     (if geolocation_in_navigator then s\<lparr>loading := True\<rparr>
      else s\<lparr>locationError := Some ''Geolocation is not supported by your browser''\<rparr>)"

definition position_success :: "number \<Rightarrow> number \<Rightarrow> home \<Rightarrow> home" where
  "position_success la lo s =
     s\<lparr>userLocation := \<lparr>latitude = Some la, longitude = Some lo\<rparr>,
       locationError := None, loading := False\<rparr>"

definition position_failure :: "position_error \<Rightarrow> home \<Rightarrow> home" where
  "position_failure e s =
     s\<lparr>locationError := Some ''Unable to retrieve your location'',
       userLocation := \<lparr>latitude = None, longitude = None\<rparr>,
       loading := False\<rparr>"

definition getUserLocation :: "location_outcome \<Rightarrow> home \<Rightarrow> home" where
  "getUserLocation outcome s =
     (case outcome of
        NotSupported \<Rightarrow> getUserLocation_begin False s
      | Position la lo \<Rightarrow> position_success la lo (getUserLocation_begin True s)
      | PositionFailed e \<Rightarrow> position_failure e (getUserLocation_begin True s))"

text \<open>
  Lines 177 to 188. \<open>userLocation.latitude && userLocation.longitude\<close> is truthy when
  neither field is \<open>null\<close> and both numbers are truthy.
\<close>

definition handleSubmit_payload :: "home \<Rightarrow> payload" where
  "handleSubmit_payload s =
     \<lparr>payload_sector = sector s,
      collection_efficiency = collectionEfficiency s,
      payload_mileage = mileage s,
      petrol_left = petrolLeft s,
      payload_userLocation =
        (case (latitude (userLocation s), longitude (userLocation s)) of
           (Some la, Some lo) \<Rightarrow> (if truthy la \<and> truthy lo then Some (la, lo) else None)
         | _ \<Rightarrow> None)\<rparr>"

text \<open>
  \<open>handleSubmit\<close> (lines 169 to 217), again in two turns: up to the \<open>await fetch\<close>
  of line 192, and from the settled request to the end of \<open>finally\<close>.
\<close>

definition handleSubmit_begin :: "home \<Rightarrow> home" where
  "handleSubmit_begin s =
     s\<lparr>loading := True, loginError := None, logoutError := None, enrichedData := None\<rparr>"

definition handleSubmit_settle :: "fetch_outcome \<Rightarrow> home \<Rightarrow> home" where
  "handleSubmit_settle outcome s =
     (case outcome of
        Succeeded body \<Rightarrow>
          s\<lparr>enrichedData := Some (data body), routeDetails := Some (route_details body),
            isThereData := True, loading := False\<rparr>
      | Failed f \<Rightarrow>
          s\<lparr>loginError :=
              Some ''An error occurred while fetching enriched data. Please try again.'',
            loading := False\<rparr>)"

definition handleSubmit :: "fetch_outcome \<Rightarrow> home \<Rightarrow> home" where
  "handleSubmit outcome s = handleSubmit_settle outcome (handleSubmit_begin s)"

text \<open>\<open>handleInform\<close> (lines 219 to 242); an empty string is falsy.\<close>

definition handleInform :: "home \<Rightarrow> home" where
  "handleInform s =
     (let s1 = s\<lparr>loading := True, loginError := None, logoutError := None\<rparr>
      in if phoneNo s = [] \<and> sector s = []
         then s1\<lparr>loginError := Some ''Please enter either a phone number or select a sector'',
                 loading := False\<rparr>
         else s1\<lparr>isInformed := True, isInputStage := True, loading := False\<rparr>)"

text \<open>The "Go Back" button.\<close>

definition goBack :: "home \<Rightarrow> home" where
  "goBack s = s\<lparr>isInformed := False, isInputStage := False\<rparr>"

text \<open>What the JSX shows: the conditions of lines 251, 257, 305 and 408.\<close>

definition shows_login :: "home \<Rightarrow> bool" where
  "shows_login s = (user s = None)"

definition shows_inform_form :: "home \<Rightarrow> bool" where
  "shows_inform_form s = (user s \<noteq> None \<and> \<not> isInformed s)"

definition shows_input_form :: "home \<Rightarrow> bool" where
  "shows_input_form s = (user s \<noteq> None \<and> isInformed s \<and> isInputStage s)"

definition shows_data :: "home \<Rightarrow> bool" where
  "shows_data s = (isThereData s \<and> enrichedData s \<noteq> None)"

text \<open>The props the page gives the map component (lines 470 to 476).\<close>

definition map_props :: "EnrichedData \<Rightarrow> MapComponentProps" where
  "map_props d =
     \<lparr>stateCoordinates =
        \<lparr>lat = state_lat (coordinates d), lon = state_lon (coordinates d),
         stateName = data_sector d\<rparr>,
      landfills = coordinates_landfills (coordinates d)\<rparr>"

text \<open>The \<open>onValueChange\<close> of the sector select (line 266).\<close>

definition setSector :: "string \<Rightarrow> home \<Rightarrow> home" where
  "setSector v s = s\<lparr>sector := v\<rparr>"

section \<open>Concrete inputs\<close>

text \<open>
  The theorems below hold for every runtime. To evaluate the components on concrete inputs
  one runtime is fixed: a distance in the plane where turf computes the haversine, exact
  arithmetic where the doubles round, and a placeholder for the digits of \<open>toFixed\<close>.
\<close>

definition flat_distance :: "position \<Rightarrow> position \<Rightarrow> number" where
  "flat_distance a b =
     (case (a, b) of
        ((Num x1, Num y1), (Num x2, Num y2)) \<Rightarrow> Num (\<bar>x2 - x1\<bar> + \<bar>y2 - y1\<bar>)
      | _ \<Rightarrow> NaN)"

definition exact_add :: "number \<Rightarrow> number \<Rightarrow> number" where
  "exact_add a b = (case (a, b) of (Num x, Num y) \<Rightarrow> Num (x + y) | _ \<Rightarrow> NaN)"

definition exact_div :: "number \<Rightarrow> number \<Rightarrow> number" where
  "exact_div a b =
     (case (a, b) of (Num x, Num y) \<Rightarrow> (if y = 0 then NaN else Num (x / y)) | _ \<Rightarrow> NaN)"

definition example_runtime :: runtime where
  "example_runtime =
     \<lparr>turf_distance = flat_distance, num_add = exact_add, num_div = exact_div,
      toFixed = (\<lambda>n digits. ''?'')\<rparr>"

text \<open>A state centre and three landfills at distances 10, 5 and 5 from it.\<close>

definition origin :: stateCoordinates_t where
  "origin = \<lparr>lat = Num 0, lon = Num 0, stateName = ''Sector 5''\<rparr>"

definition landfill_A :: landfill where
  "landfill_A =
     \<lparr>lat = Num 10, lon = Num 0, name = ''A'', distance_to_landfill_from_sector = None\<rparr>"

definition landfill_B :: landfill where
  "landfill_B =
     \<lparr>lat = Num 5, lon = Num 0, name = ''B'', distance_to_landfill_from_sector = None\<rparr>"

definition landfill_C :: landfill where
  "landfill_C =
     \<lparr>lat = Num 0, lon = Num 5, name = ''C'', distance_to_landfill_from_sector = None\<rparr>"



text \<open>A response of the backend for Sector 5.\<close>

definition example_data :: EnrichedData where
  "example_data =
     \<lparr>data_sector = ''Sector 5'', total_waste_generated = ''120 tonnes'',
      waste_composition =
        \<lparr>organic = ''50%'', plastic = ''20%'', paper = ''10%'', metal = ''5%'',
         glass = ''5%'', other = ''10%''\<rparr>,
      recycling_rate = ''30%'',
      waste_management_methods =
        \<lparr>methods_landfill = ''60%'', recycling = ''30%'', composting = ''8%'',
         incineration = ''2%''\<rparr>,
      key_challenges = [''segregation''], initiatives = [''door to door collection''],
      data_year = ''2023'', condition_of_roads_to_landfills = ''good'',
      coordinates =
        \<lparr>state_lat = Num 30.73, state_lon = Num 76.77,
         coordinates_landfills =
           [\<lparr>lat = Num 30.74, lon = Num 76.78, name = ''Landfill A'',
             distance_to_landfill_from_sector = None\<rparr>,
            \<lparr>lat = Num 30.80, lon = Num 76.90, name = ''Landfill B'',
             distance_to_landfill_from_sector = None\<rparr>]\<rparr>\<rparr>"

definition example_body :: response_body where
  "example_body =
     \<lparr>data = example_data,
      route_details =
        [\<lparr>Route = ''Route 1'', Closeness_Coefficient = Num 0.5, Ranking = Num 1\<rparr>]\<rparr>"

text \<open>
  Sessions the page reaches from its initial state: the user signs in, selects Sector 5,
  informs and acquires the device location (\<open>input_home\<close>), then submits and the backend
  answers (\<open>loaded_home\<close>).
\<close>

definition input_home :: home where
  "input_home =
     getUserLocation (Position (Num 30.7333) (Num 76.7794))
       (handleInform (setSector ''Sector 5''
          (onAuthStateChanged (Some (User ''u1'')) initial_home)))"

definition loaded_home :: home where
  "loaded_home = handleSubmit (Succeeded example_body) input_home"

text \<open>
  The user submits, signs out while the request is pending, the sign-out succeeds, and
  the response arrives afterwards.
\<close>

definition after_stale_response :: home where
  "after_stale_response =
     handleSubmit_settle (Succeeded example_body)
       (handleLogout SignOutResolved (handleSubmit_begin input_home))"

text \<open>As \<open>input_home\<close>, with a device on the equator.\<close>

definition equator_home :: home where
  "equator_home =
     getUserLocation (Position (Num 0) (Num 76.7794))
       (handleInform (setSector ''Sector 5''
          (onAuthStateChanged (Some (User ''u1'')) initial_home)))"

section \<open>Properties of the page\<close>

lemmas home_defs = onAuthStateChanged_def handleLogout_begin_def handleLogout_settle_def
  handleLogout_def getUserLocation_begin_def position_success_def position_failure_def
  getUserLocation_def handleSubmit_begin_def handleSubmit_settle_def handleSubmit_def
  handleInform_def goBack_def setSector_def initial_home_def

lemmas view_defs = shows_login_def shows_inform_form_def shows_input_form_def shows_data_def

lemmas example_defs = input_home_def loaded_home_def after_stale_response_def equator_home_def
  example_body_def

text \<open>
  C1, as stated, fails on the code: after a sign-out from the loaded session the device
  location, the selected sector and the route details are still there.
\<close>

theorem logout_keeps_location_and_parameters:
  "userLocation (handleLogout SignOutResolved loaded_home) =
     \<lparr>latitude = Some (Num 30.7333), longitude = Some (Num 76.7794)\<rparr>
   \<and> sector (handleLogout SignOutResolved loaded_home) = ''Sector 5''
   \<and> routeDetails (handleLogout SignOutResolved loaded_home) = Some (route_details example_body)"
  by (simp add: home_defs example_defs)

text \<open>
  C1, amended: from every session state a sign-out that the provider accepts leaves the
  page on the login button, and whatever the provider answers, sign-out clears the
  enriched data, the data flag and the two stage flags; the device location, the sector,
  the phone number, the three numeric parameters and the route details stay as they were.
\<close>

theorem handleLogout_clears_results_only:
  "shows_login (handleLogout SignOutResolved s)
   \<and> enrichedData (handleLogout outcome s) = None
   \<and> isThereData (handleLogout outcome s) = False
   \<and> isInformed (handleLogout outcome s) = False
   \<and> isInputStage (handleLogout outcome s) = False
   \<and> userLocation (handleLogout outcome s) = userLocation s
   \<and> sector (handleLogout outcome s) = sector s
   \<and> phoneNo (handleLogout outcome s) = phoneNo s
   \<and> collectionEfficiency (handleLogout outcome s) = collectionEfficiency s
   \<and> mileage (handleLogout outcome s) = mileage s
   \<and> petrolLeft (handleLogout outcome s) = petrolLeft s
   \<and> routeDetails (handleLogout outcome s) = routeDetails s"
  by (cases outcome) (simp_all add: home_defs view_defs)



text \<open>
  C3, as stated, fails on the code: a submission that fails in the loaded session leaves
  no enriched data, and the data panel is gone.
\<close>

theorem failed_submit_discards_data:
  "enrichedData loaded_home = Some (data example_body)
   \<and> shows_data loaded_home
   \<and> enrichedData (handleSubmit (Failed (NotOk None)) loaded_home) = None
   \<and> shows_data (handleSubmit (Failed (NotOk None)) loaded_home) = False"
  by (simp add: home_defs view_defs example_defs)

text \<open>
  C3, amended: a failed backend call attaches the error message and leaves the user, the
  stage flags, the data flag and the route details as they were; the enriched data is
  absent afterwards, because every submission clears it before the request is sent.
\<close>

theorem failed_submit_keeps_stage_clears_data:
  "loginError (handleSubmit (Failed f) s)
     = Some ''An error occurred while fetching enriched data. Please try again.''
   \<and> enrichedData (handleSubmit (Failed f) s) = None
   \<and> loading (handleSubmit (Failed f) s) = False
   \<and> user (handleSubmit (Failed f) s) = user s
   \<and> isInformed (handleSubmit (Failed f) s) = isInformed s
   \<and> isInputStage (handleSubmit (Failed f) s) = isInputStage s
   \<and> isThereData (handleSubmit (Failed f) s) = isThereData s
   \<and> routeDetails (handleSubmit (Failed f) s) = routeDetails s"
  by (simp add: home_defs)

text \<open>
  C6 at a device on the equator: the coordinate is present in the state, and the payload
  carries no location.
\<close>

theorem zero_latitude_not_sent:
  "userLocation equator_home = \<lparr>latitude = Some (Num 0), longitude = Some (Num 76.7794)\<rparr>
   \<and> payload_userLocation (handleSubmit_payload equator_home) = None"
  by (simp add: home_defs example_defs handleSubmit_payload_def)

text \<open>
  C7, as stated, fails on the code: a denied request in a session that holds a device
  location erases it.
\<close>

theorem failed_request_erases_location:
  "userLocation loaded_home = \<lparr>latitude = Some (Num 30.7333), longitude = Some (Num 76.7794)\<rparr>
   \<and> userLocation (getUserLocation (PositionFailed PERMISSION_DENIED) loaded_home)
       = \<lparr>latitude = None, longitude = None\<rparr>"
  by (simp add: home_defs example_defs)

text \<open>
  C7, amended: a request that ends in the error callback, whatever the kind of error,
  sets the one message "Unable to retrieve your location" and resets the stored
  coordinate to absent; only a browser without geolocation leaves the stored coordinate
  untouched, with a message of its own.
\<close>

theorem getUserLocation_failure_effect:
  "userLocation (getUserLocation (PositionFailed e) s) = \<lparr>latitude = None, longitude = None\<rparr>
   \<and> locationError (getUserLocation (PositionFailed e) s) = Some ''Unable to retrieve your location''
   \<and> loading (getUserLocation (PositionFailed e) s) = False
   \<and> userLocation (getUserLocation NotSupported s) = userLocation s
   \<and> locationError (getUserLocation NotSupported s)
       = Some ''Geolocation is not supported by your browser''"
  by (simp add: home_defs)

section \<open>Properties of the map component\<close>

subsection \<open>Comparison of numbers\<close>

lemma num_less_trans: "num_less a b \<Longrightarrow> num_less b c \<Longrightarrow> num_less a c"
  by (cases a; cases b; cases c) auto

lemma num_le_less_trans: "num_le a b \<Longrightarrow> num_less b c \<Longrightarrow> num_less a c"
  by (cases a; cases b; cases c) auto

lemma num_less_irrefl: "\<not> num_less a a"
  by (cases a) auto

lemma not_less_PosInfinity: "\<not> num_less a PosInfinity \<Longrightarrow> \<not> num_less a b"
  by (cases a; cases b) auto

lemma not_num_less_iff_le: "a \<noteq> NaN \<Longrightarrow> b \<noteq> NaN \<Longrightarrow> \<not> num_less a b \<longleftrightarrow> num_le b a"
  by (cases a; cases b) auto

text \<open>
  The invariant of the loop, with \<open>pre\<close> the landfills already visited and \<open>ls\<close> those
  still to come. Either no visited landfill has a distance below \<open>Infinity\<close> and the
  loop still holds \<open>landfills[0]\<close> and \<open>Infinity\<close>, or it holds a visited landfill and
  its distance, no visited landfill is strictly nearer, and none before it is as near.
\<close>

lemma nearest_loop_inv:
  assumes "xs = pre @ ls" "xs \<noteq> []"
    and "(n = Some (xs ! 0) \<and> sd = PosInfinity \<and> (\<forall>j<length pre. \<not> num_less (turf_distance rt sp (lon (xs ! j), lat (xs ! j))) PosInfinity))
       \<or> (\<exists>i<length pre. n = Some (xs ! i) \<and> sd = turf_distance rt sp (lon (xs ! i), lat (xs ! i)) \<and> num_less sd PosInfinity
            \<and> (\<forall>j<length pre. \<not> num_less (turf_distance rt sp (lon (xs ! j), lat (xs ! j))) sd)
            \<and> (\<forall>j<i. \<not> num_le (turf_distance rt sp (lon (xs ! j), lat (xs ! j))) sd))"
  shows "\<exists>i<length xs. fst (nearest_loop rt sp ls (n, sd)) = Some (xs ! i)
          \<and> (\<forall>j<length xs. \<not> num_less (turf_distance rt sp (lon (xs ! j), lat (xs ! j))) (turf_distance rt sp (lon (xs ! i), lat (xs ! i))))
          \<and> (\<forall>j<i. \<not> num_le (turf_distance rt sp (lon (xs ! j), lat (xs ! j))) (turf_distance rt sp (lon (xs ! i), lat (xs ! i))))"
  using assms
proof (induction ls arbitrary: pre n sd)
  case Nil
  then show ?case
    apply simp
    apply (erule disjE)
     apply (rule exI[of _ 0])
    apply (auto dest: not_less_PosInfinity)
    done
next
  case (Cons l ls)
  let ?d = "\<lambda>j. turf_distance rt sp (lon (xs ! j), lat (xs ! j))"
  have xs: "xs = (pre @ [l]) @ ls" using Cons.prems(1) by simp
  have lk: "xs ! length pre = l" using Cons.prems(1) by simp
  show ?case
  proof (cases "num_less (?d (length pre)) sd")
    case True
    have inv: "\<exists>i<length (pre @ [l]). Some l = Some (xs ! i) \<and> ?d (length pre) = ?d i \<and> num_less (?d (length pre)) PosInfinity
            \<and> (\<forall>j<length (pre @ [l]). \<not> num_less (?d j) (?d (length pre)))
            \<and> (\<forall>j<i. \<not> num_le (?d j) (?d (length pre)))"
      apply (rule exI[of _ "length pre"])
      using Cons.prems(3) True lk
      apply (auto simp: less_Suc_eq num_less_irrefl dest: num_less_trans num_le_less_trans not_less_PosInfinity)
      done
    from Cons.IH[OF xs Cons.prems(2), of "Some l" "?d (length pre)"] inv True lk
    show ?thesis by simp
  next
    case False
    have inv: "(n = Some (xs ! 0) \<and> sd = PosInfinity \<and> (\<forall>j<length (pre @ [l]). \<not> num_less (?d j) PosInfinity))
       \<or> (\<exists>i<length (pre @ [l]). n = Some (xs ! i) \<and> sd = ?d i \<and> num_less sd PosInfinity
            \<and> (\<forall>j<length (pre @ [l]). \<not> num_less (?d j) sd)
            \<and> (\<forall>j<i. \<not> num_le (?d j) sd))"
      using Cons.prems(3) False
      apply (elim disjE)
       apply (rule disjI1)
       apply (auto simp: less_Suc_eq)[1]
      apply (rule disjI2)
      apply (auto simp: less_Suc_eq)
      done
    from Cons.IH[OF xs Cons.prems(2) inv] False lk
    show ?thesis by simp
  qed
qed

subsection \<open>The nearest landfill\<close>

text \<open>
  C5: for every non-empty list of landfills and every state centre, the landfill the loop
  ends with is an element of the list, at some index \<open>i\<close>; no landfill of the list is
  strictly nearer to the centre than it (by the comparison \<open><\<close> of the code), and no
  landfill before index \<open>i\<close> is as near (\<open><=\<close>), so among landfills at the least
  distance the first in input order is returned. By \<open>not_num_less_iff_le\<close>, when no
  distance is \<open>NaN\<close> the first part says that its distance is \<open><=\<close> every other.
\<close>

theorem find_nearest_first_minimal:
  assumes "ls \<noteq> []"
  shows "\<exists>i<length ls.
           fst (find_nearest rt sc ls) = Some (ls ! i)
           \<and> (\<forall>j<length ls. \<not> num_less (distance_to rt sc (ls ! j)) (distance_to rt sc (ls ! i)))
           \<and> (\<forall>j<i. \<not> num_le (distance_to rt sc (ls ! j)) (distance_to rt sc (ls ! i)))"
proof -
  let ?sp = "(lon sc, lat sc)"
  have first: "(case ls of [] \<Rightarrow> None | l # _ \<Rightarrow> Some l) = Some (ls ! 0)"
    using assms by (cases ls) simp_all
  have split: "ls = [] @ ls"
    by simp
  have inv: "(Some (ls ! 0) = Some (ls ! 0) \<and> PosInfinity = PosInfinity
        \<and> (\<forall>j<length ([] :: landfill list).
              \<not> num_less (turf_distance rt ?sp (lon (ls ! j), lat (ls ! j))) PosInfinity))
     \<or> (\<exists>i<length ([] :: landfill list). Some (ls ! 0) = Some (ls ! i)
            \<and> PosInfinity = turf_distance rt ?sp (lon (ls ! i), lat (ls ! i))
            \<and> num_less PosInfinity PosInfinity
            \<and> (\<forall>j<length ([] :: landfill list).
                  \<not> num_less (turf_distance rt ?sp (lon (ls ! j), lat (ls ! j))) PosInfinity)
            \<and> (\<forall>j<i. \<not> num_le (turf_distance rt ?sp (lon (ls ! j), lat (ls ! j))) PosInfinity))"
    by simp
  have "\<exists>i<length ls. fst (nearest_loop rt ?sp ls (Some (ls ! 0), PosInfinity)) = Some (ls ! i)
          \<and> (\<forall>j<length ls. \<not> num_less (turf_distance rt ?sp (lon (ls ! j), lat (ls ! j)))
                (turf_distance rt ?sp (lon (ls ! i), lat (ls ! i))))
          \<and> (\<forall>j<i. \<not> num_le (turf_distance rt ?sp (lon (ls ! j), lat (ls ! j)))
                (turf_distance rt ?sp (lon (ls ! i), lat (ls ! i))))"
    by (rule nearest_loop_inv[OF split assms inv])
  then show ?thesis
    unfolding find_nearest_def distance_to_def first .
qed

lemma d_A: "distance_to example_runtime origin landfill_A = Num 10"
  by (simp add: distance_to_def example_runtime_def flat_distance_def origin_def landfill_A_def)

lemma d_B: "distance_to example_runtime origin landfill_B = Num 5"
  by (simp add: distance_to_def example_runtime_def flat_distance_def origin_def landfill_B_def)

lemma d_C: "distance_to example_runtime origin landfill_C = Num 5"
  by (simp add: distance_to_def example_runtime_def flat_distance_def origin_def landfill_C_def)

text \<open>
  C5 at the landfills A at 10, B at 5 and C at 5: the theorem leaves B as the only
  possible result.
\<close>

theorem find_nearest_first_minimal_witness:
  "[landfill_A, landfill_B, landfill_C] \<noteq> []
   \<and> fst (find_nearest example_runtime origin [landfill_A, landfill_B, landfill_C]) = Some landfill_B"
proof -
  let ?ls = "[landfill_A, landfill_B, landfill_C]"
  let ?d = "\<lambda>k. distance_to example_runtime origin (?ls ! k)"
  have ne: "?ls \<noteq> []" by simp
  from find_nearest_first_minimal[OF ne, of example_runtime origin]
  obtain i where i: "i < length ?ls"
    and r: "fst (find_nearest example_runtime origin ?ls) = Some (?ls ! i)"
    and m: "\<forall>j<length ?ls. \<not> num_less (?d j) (?d i)"
    and f: "\<forall>j<i. \<not> num_le (?d j) (?d i)"
    by blast
  have d0: "?d 0 = Num 10" and d1: "?d 1 = Num 5" and d2: "?d 2 = Num 5"
    by (simp_all add: d_A d_B d_C)
  from i have "i = 0 \<or> i = 1 \<or> i = 2" by auto
  then have "i = 1"
  proof (elim disjE)
    assume "i = 0"
    moreover have "\<not> num_less (?d 1) (?d i)" using m[rule_format, of 1] by simp
    ultimately show ?thesis using d0 d1 by simp
  next
    assume "i = 1"
    then show ?thesis .
  next
    assume i2: "i = 2"
    then have "\<not> num_le (?d 1) (?d i)" using f[rule_format, of 1] by simp
    with i2 show ?thesis using d1 d2 by simp
  qed
  with r ne show ?thesis by simp
qed

text \<open>
  C4, as stated, fails on the code: with no landfill the search ends without any check,
  with no landfill (\<open>undefined\<close>) and the distance \<open>Infinity\<close>, and the callback ends
  with a \<open>TypeError\<close> after the control and the marker of the centre are on the map.
\<close>

theorem no_landfill_no_check:
  "find_nearest example_runtime origin [] = (None, PosInfinity)
   \<and> load_instructions example_runtime \<lparr>stateCoordinates = origin, landfills = []\<rparr>
       = ([AddControl, state_marker origin], Some TypeError)"
  by (simp add: find_nearest_def load_instructions_def)

text \<open>
  C4, amended: for the empty list of landfills and every state centre, the search makes no
  check and no distance computation and yields no landfill with the distance
  \<open>Infinity\<close>; the \<open>load\<close> callback then ends with a \<open>TypeError\<close>, having handed over
  the navigation control and the marker of the centre and nothing else.
\<close>

theorem empty_landfills_undefined_then_TypeError:
  "find_nearest rt sc [] = (None, PosInfinity)
   \<and> load_instructions rt \<lparr>stateCoordinates = sc, landfills = []\<rparr>
       = ([AddControl, state_marker sc], Some TypeError)"
  by (simp add: find_nearest_def load_instructions_def)

subsection \<open>Rendering\<close>













end
